theory Spec2Isabelle
  imports Complex_Main
begin

section \<open>The longitudinal vehicle model of Longitudinal\_Vehicle\_Model.ipynb\<close>

text \<open>
  The notebook defines one class, \<^verbatim>\<open>Vehicle\<close>, with a constructor, \<^verbatim>\<open>reset\<close> and
  \<^verbatim>\<open>step\<close>, and a driving loop for a ramp scenario. Python's numbers are modelled as
  \<^typ>\<open>real\<close>: the development is about the arithmetic the code writes down, not about
  the rounding of IEEE doubles. A method that mutates \<^verbatim>\<open>self\<close> takes the object and
  returns the updated one; the only exception the arithmetic can raise over the reals is
  \<^verbatim>\<open>ZeroDivisionError\<close>, and it is a value of the model.
\<close>

subsection \<open>The object\<close>

text \<open>The attributes \<^verbatim>\<open>__init__\<close> assigns, in its order, under their own names.\<close>

record Vehicle =
  a_0 :: real
  a_1 :: real
  a_2 :: real
  GR :: real
  r_e :: real
  J_e :: real
  m :: real
  g :: real
  c_a :: real
  c_r1 :: real
  c :: real
  F_max :: real
  x :: real
  v :: real
  a :: real
  w_e :: real
  w_e_dot :: real
  sample_time :: real

text \<open>\<^verbatim>\<open>Vehicle()\<close>: the object \<^verbatim>\<open>__init__\<close> builds.\<close>

definition init :: Vehicle where
  "init =
     \<lparr> a_0 = 400, a_1 = 0.1, a_2 = - 0.0002,
       GR = 0.35, r_e = 0.3, J_e = 10, m = 2000, g = 9.81,
       c_a = 1.36, c_r1 = 0.01,
       c = 10000, F_max = 10000,
       x = 0, v = 5, a = 0, w_e = 100, w_e_dot = 0,
       sample_time = 0.01 \<rparr>"

text \<open>\<^verbatim>\<open>reset\<close>: five assignments, nothing else.\<close>

definition reset :: "Vehicle \<Rightarrow> Vehicle" where
  "reset self = self\<lparr> x := 0, v := 5, a := 0, w_e := 100, w_e_dot := 0 \<rparr>"

subsection \<open>One step\<close>

datatype error = ZeroDivisionError

text \<open>
  What a call leaves behind: it returns, or it raises. An exception does not undo the
  assignments made before it, so \<open>Raised\<close> carries the object as it is at the raise.
\<close>

datatype outcome = Returned Vehicle | Raised error Vehicle

fun state_of :: "outcome \<Rightarrow> Vehicle" where
  "state_of (Returned self) = self"
| "state_of (Raised e self) = self"

fun returned :: "outcome \<Rightarrow> bool" where
  "returned (Returned self) = True"
| "returned (Raised e self) = False"

text \<open>
  The first six lines of \<^verbatim>\<open>step\<close>: the three derivatives are read into locals, then
  \<^verbatim>\<open>self.x\<close>, \<^verbatim>\<open>self.v\<close> and \<^verbatim>\<open>self.w_e\<close> are advanced with them.
\<close>

definition integrate :: "Vehicle \<Rightarrow> Vehicle" where
  "integrate self =
     (let x_dot = v self;
          v_dot = a self;
          w_e_dot' = w_e_dot self;
          self = self\<lparr> x := x self + x_dot * sample_time self \<rparr>;
          self = self\<lparr> v := v self + v_dot * sample_time self \<rparr>;
          self = self\<lparr> w_e := w_e self + w_e_dot' * sample_time self \<rparr>
      in self)"

text \<open>
  The locals of \<^verbatim>\<open>step\<close> after the integration, each a function of the object as it
  is then (and of the argument it reads), under the local's name.
\<close>

definition omega_w :: "Vehicle \<Rightarrow> real" where
  "omega_w self = GR self * w_e self"

definition s :: "Vehicle \<Rightarrow> real" where
  "s self = omega_w self * r_e self / v self - 1"

definition F_x :: "Vehicle \<Rightarrow> real" where
  "F_x self = (if \<bar>s self\<bar> < 1 then c self * s self else F_max self)"

definition F_g :: "Vehicle \<Rightarrow> real \<Rightarrow> real" where
  "F_g self alpha = m self * g self * sin alpha"

definition R_x :: "Vehicle \<Rightarrow> real" where
  "R_x self = c_r1 self * v self"

definition F_aero :: "Vehicle \<Rightarrow> real" where
  "F_aero self = c_a self * (v self)\<^sup>2"

definition F_load :: "Vehicle \<Rightarrow> real \<Rightarrow> real" where
  "F_load self alpha = F_aero self + R_x self + F_g self alpha"

definition T_e :: "Vehicle \<Rightarrow> real \<Rightarrow> real" where
  "T_e self throttle = throttle * (a_0 self + a_1 self * w_e self + a_2 self * (w_e self)\<^sup>2)"

text \<open>
  \<^verbatim>\<open>step\<close>. Python raises \<^verbatim>\<open>ZeroDivisionError\<close> at a division by zero: at the slip
  ratio (by \<^verbatim>\<open>self.v\<close>), at the acceleration (by \<^verbatim>\<open>self.m\<close>) and at the engine
  acceleration (by \<^verbatim>\<open>self.J_e\<close>), in this order; each raise keeps the assignments
  already made.
\<close>

definition step :: "Vehicle \<Rightarrow> real \<Rightarrow> real \<Rightarrow> outcome" where
  "step self throttle alpha =
     (let self = integrate self in
      if v self = 0 then Raised ZeroDivisionError self
      else
        let F_x' = F_x self;
            F_load' = F_load self alpha;
            T_e' = T_e self throttle
        in
          if m self = 0 then Raised ZeroDivisionError self
          else
            let self = self\<lparr> a := (F_x' - F_load') / m self \<rparr> in
            if J_e self = 0 then Raised ZeroDivisionError self
            else Returned (self\<lparr> w_e_dot := (T_e' - GR self * r_e self * F_load') / J_e self \<rparr>))"

subsection \<open>Sequences of calls\<close>

text \<open>
  The object after a sequence of calls \<^verbatim>\<open>step(throttle, alpha)\<close>, each made on the object
  the call before left behind, whether that call returned or raised (a caller may catch
  the exception and go on).
\<close>

fun after_calls :: "Vehicle \<Rightarrow> (real \<times> real) list \<Rightarrow> Vehicle" where
  "after_calls self [] = self"
| "after_calls self ((throttle, alpha) # rest) =
     after_calls (state_of (step self throttle alpha)) rest"


text \<open>The five state variables of an object (\<^verbatim>\<open>__init__\<close>: ``State variables'').\<close>

definition state_variables :: "Vehicle \<Rightarrow> real \<times> real \<times> real \<times> real \<times> real" where
  "state_variables self = (x self, v self, a self, w_e self, w_e_dot self)"

text \<open>The thirteen attributes that \<^verbatim>\<open>__init__\<close> files under ``Parameters'' (and the sampling time).\<close>

definition parameters ::
  "Vehicle \<Rightarrow> (real \<times> real \<times> real) \<times> (real \<times> real \<times> real \<times> real \<times> real) \<times> (real \<times> real) \<times> (real \<times> real) \<times> real" where
  "parameters self =
     ((a_0 self, a_1 self, a_2 self),
      (GR self, r_e self, J_e self, m self, g self),
      (c_a self, c_r1 self),
      (c self, F_max self),
      sample_time self)"

subsection \<open>The ramp scenario\<close>

text \<open>
  The notebook's cell that drives the vehicle over the slope. \<^verbatim>\<open>np.arange(start, stop, step)\<close>
  holds the \<open>\<lceil>(stop - start) / step\<rceil>\<close> values \<open>start + k * step\<close>; \<^verbatim>\<open>sample_time\<close> is the
  notebook's global of that name (primed here, the attribute has the name already).
\<close>

definition arange :: "real \<Rightarrow> real \<Rightarrow> real \<Rightarrow> real list" where
  "arange start stop stride =
     map (\<lambda>k. start + real k * stride) [0..<nat \<lceil>(stop - start) / stride\<rceil>]"

definition sample_time' :: real where
  "sample_time' = 0.01"

definition time_end :: real where
  "time_end = 20"

definition t_data :: "real list" where
  "t_data = arange 0 time_end sample_time'"

definition n :: nat where
  "n = length t_data"

text \<open>
  \<^verbatim>\<open>xs[lo:hi] = ys\<close> on an array: the slice is replaced by \<open>ys\<close>. numpy wants \<open>ys\<close> as
  long as the slice (or a scalar, which fills it); every use below is such.
\<close>

definition slice_assign :: "'a list \<Rightarrow> nat \<Rightarrow> nat \<Rightarrow> 'a list \<Rightarrow> 'a list" where
  "slice_assign xs lo hi ys = take lo xs @ ys @ drop hi xs"

definition throttle_data :: "real list" where
  "throttle_data =
     (let throttle_data = replicate n 0;
          throttle_data = slice_assign throttle_data 0 (n div 4)
            (map (\<lambda>i. 0.2 + 0.3 * real i / real (n div 4)) [0..<n div 4]);
          throttle_data = slice_assign throttle_data (n div 4) (3 * n div 4)
            (replicate (3 * n div 4 - n div 4) 0.5);
          throttle_data = slice_assign throttle_data (3 * n div 4) n
            (map (\<lambda>i. 0.5 - 0.001 * real i) [0..<n div 4])
      in throttle_data)"







section \<open>Properties\<close>

subsection \<open>Shared facts\<close>

lemma parameters_integrate: "parameters (integrate self) = parameters self"
  by (simp add: parameters_def integrate_def)

lemma parameters_step: "parameters (state_of (step self throttle alpha)) = parameters self"
  by (simp add: parameters_def step_def integrate_def Let_def)

lemma parameters_reset: "parameters (reset self) = parameters self"
  by (simp add: parameters_def reset_def)

lemma parameters_after_calls: "parameters (after_calls self inputs) = parameters self"
  by (induction self inputs rule: after_calls.induct) (simp_all add: parameters_step)

lemma integrate_fields:
  "x (integrate self) = x self + v self * sample_time self"
  "v (integrate self) = v self + a self * sample_time self"
  "w_e (integrate self) = w_e self + w_e_dot self * sample_time self"
  "a (integrate self) = a self"
  "w_e_dot (integrate self) = w_e_dot self"
  by (simp_all add: integrate_def)

lemma step_kinematics:
  "x (state_of (step self throttle alpha)) = x (integrate self)"
  "v (state_of (step self throttle alpha)) = v (integrate self)"
  "w_e (state_of (step self throttle alpha)) = w_e (integrate self)"
  by (simp_all add: step_def Let_def)

lemma step_returned_iff:
  "returned (step self throttle alpha) \<longleftrightarrow>
     v (integrate self) \<noteq> 0 \<and> m (integrate self) \<noteq> 0 \<and> J_e (integrate self) \<noteq> 0"
  by (simp add: step_def Let_def)

lemma step_Returned_derivatives:
  assumes "step self throttle alpha = Returned self'"
  shows "a self' = (F_x (integrate self) - F_load (integrate self) alpha) / m (integrate self)"
    and "w_e_dot self' =
           (T_e (integrate self) throttle
              - GR (integrate self) * r_e (integrate self) * F_load (integrate self) alpha)
           / J_e (integrate self)"
  using assms by (auto simp add: step_def Let_def split: if_splits)

lemma parameters_init_fields:
  assumes "parameters self = parameters init"
  shows "a_0 self = 400" "a_1 self = 1 / 10" "a_2 self = - (1 / 5000)"
    "GR self = 7 / 20" "r_e self = 3 / 10" "J_e self = 10" "m self = 2000" "g self = 981 / 100"
    "c_a self = 34 / 25" "c_r1 self = 1 / 100" "c self = 10000" "F_max self = 10000"
    "sample_time self = 1 / 100"
  using assms by (simp_all add: parameters_def init_def)

subsection \<open>Reset\<close>

text \<open>
  C3. After any finite sequence of calls of \<^verbatim>\<open>step\<close>, whatever their arguments and from
  whatever object, \<^verbatim>\<open>reset\<close> leaves the five state variables at the values of a freshly
  constructed object: position 0, velocity 5, acceleration 0, engine speed 100, engine
  angular acceleration 0. On an object that was constructed by \<^verbatim>\<open>Vehicle()\<close> the
  result is the freshly constructed object itself.
\<close>

theorem reset_after_calls:
  "state_variables (reset (after_calls self inputs)) = (0, 5, 0, 100, 0)
   \<and> state_variables (reset (after_calls self inputs)) = state_variables init
   \<and> reset (after_calls init inputs) = init"
proof -
  have vars: "state_variables (reset self') = (0, 5, 0, 100, 0)" for self'
    by (simp add: state_variables_def reset_def)
  have fresh: "state_variables init = (0, 5, 0, 100, 0)"
    by (simp add: state_variables_def init_def)
  have "parameters (after_calls init inputs) = parameters init"
    by (rule parameters_after_calls)
  then have "reset (after_calls init inputs) = init"
    by (simp add: parameters_def reset_def init_def)
  with vars fresh show ?thesis by simp
qed

subsection \<open>The frame of step and reset\<close>

text \<open>
  C7. The parameters (the engine-torque coefficients, gear ratio, effective radius, engine
  inertia, mass, gravitational acceleration, drag and rolling-resistance coefficients, tire
  coefficient, maximum tire force and the sampling time) have the values the constructor
  gives them, and no call of \<^verbatim>\<open>step\<close> (returning or raising) or of \<^verbatim>\<open>reset\<close> changes
  any of them: the two methods write the five state variables only.
\<close>

theorem parameters_unchanged:
  "parameters init =
     ((400, 0.1, - 0.0002), (0.35, 0.3, 10, 2000, 9.81), (1.36, 0.01), (10000, 10000), 0.01)
   \<and> parameters (state_of (step self throttle alpha)) = parameters self
   \<and> parameters (reset self) = parameters self
   \<and> parameters (after_calls self inputs) = parameters self"
proof -
  have "parameters init =
     ((400, 0.1, - 0.0002), (0.35, 0.3, 10, 2000, 9.81), (1.36, 0.01), (10000, 10000), 0.01)"
    by (simp add: parameters_def init_def)
  then show ?thesis
    by (simp only: parameters_step parameters_reset parameters_after_calls simp_thms)
qed

subsection \<open>The role of the throttle\<close>

text \<open>
  C10. Two calls of \<^verbatim>\<open>step\<close> on the same object with the same incline and different
  throttles leave the same position, velocity and acceleration (and engine speed): the
  objects they leave differ in \<^verbatim>\<open>w_e_dot\<close> at most, and one call raises exactly when
  the other does. The stored \<^verbatim>\<open>w_e_dot\<close> does depend on the throttle: on a fresh object,
  throttle 0 and throttle 1 store different values.
\<close>

theorem throttle_reaches_w_e_dot_only:
  "x (state_of (step self throttle\<^sub>1 alpha)) = x (state_of (step self throttle\<^sub>2 alpha))
   \<and> v (state_of (step self throttle\<^sub>1 alpha)) = v (state_of (step self throttle\<^sub>2 alpha))
   \<and> a (state_of (step self throttle\<^sub>1 alpha)) = a (state_of (step self throttle\<^sub>2 alpha))
   \<and> (state_of (step self throttle\<^sub>1 alpha))\<lparr> w_e_dot := 0 \<rparr>
       = (state_of (step self throttle\<^sub>2 alpha))\<lparr> w_e_dot := 0 \<rparr>
   \<and> returned (step self throttle\<^sub>1 alpha) = returned (step self throttle\<^sub>2 alpha)
   \<and> w_e_dot (state_of (step init 0 0)) \<noteq> w_e_dot (state_of (step init 1 0))"
proof -
  have differ: "w_e_dot (state_of (step init 0 0)) \<noteq> w_e_dot (state_of (step init 1 0))"
    by (simp add: step_def Let_def integrate_def init_def T_e_def F_load_def F_aero_def
        R_x_def F_g_def power2_eq_square)
  have same: "(state_of (step self throttle\<^sub>1 alpha))\<lparr> w_e_dot := 0 \<rparr>
       = (state_of (step self throttle\<^sub>2 alpha))\<lparr> w_e_dot := 0 \<rparr>"
    by (simp add: step_def Let_def)
  have "a (state_of (step self throttle\<^sub>1 alpha)) = a (state_of (step self throttle\<^sub>2 alpha))"
    by (simp add: step_def Let_def)
  moreover have "returned (step self throttle\<^sub>1 alpha) = returned (step self throttle\<^sub>2 alpha)"
    by (simp add: step_returned_iff)
  ultimately show ?thesis
    using differ same by (simp add: step_kinematics)
qed

subsection \<open>The order of integration and derivative update\<close>

text \<open>
  C1. On every object that carries the constructor's parameters, whatever its five state
  variables, a call \<^verbatim>\<open>step(throttle, alpha)\<close> first advances position, velocity and
  engine speed with the derivatives the object holds on entry (\<open>x += v * dt\<close>,
  \<open>v += a * dt\<close>, \<open>w_e += w_e_dot * dt\<close>, \<open>dt = 0.01\<close>), also when it then raises. When
  it returns, the derivatives it stores are \<open>a = (F_x - F_load) / m\<close> and
  \<open>w_e_dot = (T_e - GR * r_e * F_load) / J_e\<close>, computed on the object as it is after
  the integration. Hence the next call advances velocity and engine speed with the
  derivatives this call computed, from this call's arguments, and not with derivatives
  of its own arguments.
\<close>

theorem step_integrates_then_stores:
  assumes "parameters self = parameters init"
  shows "x (state_of (step self throttle alpha)) = x self + v self * 0.01
     \<and> v (state_of (step self throttle alpha)) = v self + a self * 0.01
     \<and> w_e (state_of (step self throttle alpha)) = w_e self + w_e_dot self * 0.01
     \<and> (\<forall>self'. step self throttle alpha = Returned self' \<longrightarrow>
          a self' = (F_x (integrate self) - F_load (integrate self) alpha) / m self
        \<and> w_e_dot self' =
            (T_e (integrate self) throttle - GR self * r_e self * F_load (integrate self) alpha)
            / J_e self
        \<and> (\<forall>throttle' alpha'.
              x (state_of (step self' throttle' alpha')) = x self' + v self' * 0.01
            \<and> v (state_of (step self' throttle' alpha')) =
                v self' + (F_x (integrate self) - F_load (integrate self) alpha) / m self * 0.01
            \<and> w_e (state_of (step self' throttle' alpha')) =
                w_e self'
                + (T_e (integrate self) throttle
                    - GR self * r_e self * F_load (integrate self) alpha) / J_e self * 0.01))"
proof -
  note p = parameters_init_fields [OF assms]
  have first: "x (state_of (step self throttle alpha)) = x self + v self * 0.01
     \<and> v (state_of (step self throttle alpha)) = v self + a self * 0.01
     \<and> w_e (state_of (step self throttle alpha)) = w_e self + w_e_dot self * 0.01"
    by (simp add: step_kinematics integrate_fields p)
  have second: "a self' = (F_x (integrate self) - F_load (integrate self) alpha) / m self
        \<and> w_e_dot self' =
            (T_e (integrate self) throttle - GR self * r_e self * F_load (integrate self) alpha)
            / J_e self
        \<and> (\<forall>throttle' alpha'.
              x (state_of (step self' throttle' alpha')) = x self' + v self' * 0.01
            \<and> v (state_of (step self' throttle' alpha')) =
                v self' + (F_x (integrate self) - F_load (integrate self) alpha) / m self * 0.01
            \<and> w_e (state_of (step self' throttle' alpha')) =
                w_e self'
                + (T_e (integrate self) throttle
                    - GR self * r_e self * F_load (integrate self) alpha) / J_e self * 0.01)"
    if ret: "step self throttle alpha = Returned self'" for self'
  proof -
    have "parameters (state_of (step self throttle alpha)) = parameters init"
      using assms by (simp add: parameters_step)
    then have p': "sample_time self' = 1 / 100"
      using ret by (simp add: parameters_init_fields)
    have q: "m (integrate self) = m self" "J_e (integrate self) = J_e self"
      "GR (integrate self) = GR self" "r_e (integrate self) = r_e self"
      by (simp_all add: integrate_def)
    have d: "a self' = (F_x (integrate self) - F_load (integrate self) alpha) / m self"
      "w_e_dot self' =
         (T_e (integrate self) throttle - GR self * r_e self * F_load (integrate self) alpha)
         / J_e self"
      using step_Returned_derivatives [OF ret] by (simp_all add: q)
    show ?thesis
      by (simp add: d [symmetric] step_kinematics integrate_fields p')
  qed
  from first second show ?thesis by blast
qed

theorem step_integrates_then_stores_witness:
  "x (state_of (step init (1 / 5) 0)) = 1 / 20
   \<and> v (state_of (step init (1 / 5) 0)) = 5
   \<and> w_e (state_of (step init (1 / 5) 0)) = 100
   \<and> (\<exists>self'. step init (1 / 5) 0 = Returned self'
        \<and> a self' = 4.982975 \<and> w_e_dot self' = 7.802475
        \<and> v (state_of (step self' 1 1)) = 5 + 4.982975 * 0.01
        \<and> w_e (state_of (step self' 1 1)) = 100 + 7.802475 * 0.01)"
proof -
  have ret: "step init (1 / 5) 0 = Returned (init\<lparr> x := 1 / 20, a := 4.982975, w_e_dot := 7.802475 \<rparr>)"
    by (simp add: step_def Let_def integrate_def init_def F_x_def s_def omega_w_def
        F_load_def F_aero_def R_x_def F_g_def T_e_def power2_eq_square)
  have loc: "F_x (integrate init) = 10000" "F_load (integrate init) 0 = 34.05"
    "T_e (integrate init) (1 / 5) = 81.6"
    by (simp_all add: integrate_def init_def F_x_def s_def omega_w_def
        F_load_def F_aero_def R_x_def F_g_def T_e_def power2_eq_square)
  have val: "m init = 2000" "J_e init = 10" "GR init = 0.35" "r_e init = 0.3"
    "x init = 0" "v init = 5" "a init = 0" "w_e init = 100" "w_e_dot init = 0"
    by (simp_all add: init_def)
  from step_integrates_then_stores [of init "1 / 5" 0, OF refl]
  show ?thesis
    by (simp add: ret loc val)
qed

subsection \<open>The tire force\<close>

lemma integrate_parameters_fields:
  "m (integrate self) = m self" "J_e (integrate self) = J_e self"
  "GR (integrate self) = GR self" "r_e (integrate self) = r_e self"
  "c (integrate self) = c self" "F_max (integrate self) = F_max self"
  by (simp_all add: integrate_def)

text \<open>
  C2. In a call of \<^verbatim>\<open>step\<close> that returns, the stored acceleration is
  \<open>(F - F_load) / m\<close> where the tire force \<open>F\<close> is \<open>c * s\<close> when the slip ratio \<open>s\<close>
  of the integrated object has \<open>|s| < 1\<close>, and is \<open>F_max\<close> in every other case: at
  \<open>|s| = 1\<close>, at \<open>s \<ge> 1\<close> and at every \<open>s \<le> -1\<close>. The slip ratio is
  \<open>GR * w_e * r_e / v - 1\<close> on the integrated engine speed and velocity.
\<close>

theorem tire_force_of_step:
  assumes "step self throttle alpha = Returned self'"
  shows "a self' =
           ((if \<bar>s (integrate self)\<bar> < 1 then c self * s (integrate self) else F_max self)
             - F_load (integrate self) alpha) / m self
     \<and> m self * a self' + F_load (integrate self) alpha =
           (if \<bar>s (integrate self)\<bar> < 1 then c self * s (integrate self) else F_max self)
     \<and> (\<bar>s (integrate self)\<bar> = 1 \<longrightarrow>
           m self * a self' + F_load (integrate self) alpha = F_max self)
     \<and> (s (integrate self) \<le> - 1 \<longrightarrow>
           m self * a self' + F_load (integrate self) alpha = F_max self)
     \<and> (1 \<le> s (integrate self) \<longrightarrow>
           m self * a self' + F_load (integrate self) alpha = F_max self)
     \<and> s (integrate self) =
           GR self * (w_e self + w_e_dot self * sample_time self) * r_e self
             / (v self + a self * sample_time self) - 1"
proof -
  have m0: "m self \<noteq> 0"
    using assms by (auto simp add: step_def Let_def integrate_parameters_fields split: if_splits)
  have acc: "a self' =
           ((if \<bar>s (integrate self)\<bar> < 1 then c self * s (integrate self) else F_max self)
             - F_load (integrate self) alpha) / m self"
    using step_Returned_derivatives(1) [OF assms]
    by (simp add: F_x_def integrate_parameters_fields)
  have force: "m self * a self' + F_load (integrate self) alpha =
           (if \<bar>s (integrate self)\<bar> < 1 then c self * s (integrate self) else F_max self)"
    unfolding acc using m0 by simp
  have slip: "s (integrate self) =
           GR self * (w_e self + w_e_dot self * sample_time self) * r_e self
             / (v self + a self * sample_time self) - 1"
    by (simp add: s_def omega_w_def integrate_fields integrate_parameters_fields)
  have "\<bar>s (integrate self)\<bar> = 1 \<longrightarrow>
           m self * a self' + F_load (integrate self) alpha = F_max self"
    unfolding force by simp
  moreover have "s (integrate self) \<le> - 1 \<longrightarrow>
           m self * a self' + F_load (integrate self) alpha = F_max self"
    unfolding force by simp
  moreover have "1 \<le> s (integrate self) \<longrightarrow>
           m self * a self' + F_load (integrate self) alpha = F_max self"
    unfolding force by simp
  ultimately show ?thesis
    using acc force slip by blast
qed

text \<open>
  Two runs of it: on a fresh object the slip ratio is 1.1 and the force is \<open>F_max\<close>; at
  velocity 10 the slip ratio is 0.05 and the force is \<open>c * s = 500\<close>.
\<close>

theorem tire_force_of_step_witness:
  "(\<exists>self'. step init 0 0 = Returned self'
       \<and> s (integrate init) = 1.1
       \<and> m init * a self' + F_load (integrate init) 0 = 10000)
   \<and> (\<exists>self'. step (init\<lparr> v := 10 \<rparr>) 0 0 = Returned self'
       \<and> s (integrate (init\<lparr> v := 10 \<rparr>)) = 0.05
       \<and> m (init\<lparr> v := 10 \<rparr>) * a self' + F_load (integrate (init\<lparr> v := 10 \<rparr>)) 0 = 500)"
proof -
  obtain self\<^sub>1 where r1: "step init 0 0 = Returned self\<^sub>1"
    using step_returned_iff [of init 0 0]
    by (cases "step init 0 0") (simp_all add: integrate_def init_def)
  obtain self\<^sub>2 where r2: "step (init\<lparr> v := 10 \<rparr>) 0 0 = Returned self\<^sub>2"
    using step_returned_iff [of "init\<lparr> v := 10 \<rparr>" 0 0]
    by (cases "step (init\<lparr> v := 10 \<rparr>) 0 0") (simp_all add: integrate_def init_def)
  have s1: "s (integrate init) = 1.1"
    by (simp add: s_def omega_w_def integrate_def init_def)
  have s2: "s (integrate (init\<lparr> v := 10 \<rparr>)) = 0.05"
    by (simp add: s_def omega_w_def integrate_def init_def)
  have k: "c init = 10000" "F_max init = 10000"
    by (simp_all add: init_def)
  have "m init * a self\<^sub>1 + F_load (integrate init) 0 = 10000"
    using tire_force_of_step [OF r1, THEN conjunct2, THEN conjunct1]
    by (simp add: s1 k)
  moreover have "m (init\<lparr> v := 10 \<rparr>) * a self\<^sub>2 + F_load (integrate (init\<lparr> v := 10 \<rparr>)) 0 = 500"
    using tire_force_of_step [OF r2, THEN conjunct2, THEN conjunct1]
    by (simp add: s2 k)
  ultimately show ?thesis
    using r1 r2 s1 s2 by simp
qed

subsection \<open>When step raises\<close>



subsection \<open>Monotonicity under positive net force and torque\<close>

text \<open>
  C6. On an object that carries the constructor's parameters: if a call of \<^verbatim>\<open>step\<close>
  returns and the quantities it computed satisfy \<open>F_x - F_load > 0\<close> and
  \<open>T_e - GR * r_e * F_load > 0\<close>, then the derivatives it stored are positive, and the next
  call, whatever its arguments and whether it returns or raises, leaves velocity and
  engine speed at least at their values before it (in fact above them).
\<close>

theorem next_step_nondecreasing:
  assumes "parameters self = parameters init"
    and "step self throttle alpha = Returned self'"
    and "F_x (integrate self) - F_load (integrate self) alpha > 0"
    and "T_e (integrate self) throttle - GR self * r_e self * F_load (integrate self) alpha > 0"
  shows "0 < a self' \<and> 0 < w_e_dot self'
     \<and> v self' \<le> v (state_of (step self' throttle' alpha'))
     \<and> w_e self' \<le> w_e (state_of (step self' throttle' alpha'))
     \<and> v self' < v (state_of (step self' throttle' alpha'))
     \<and> w_e self' < w_e (state_of (step self' throttle' alpha'))"
proof -
  note p = parameters_init_fields [OF assms(1)]
  have "parameters (state_of (step self throttle alpha)) = parameters init"
    using assms(1) by (simp add: parameters_step)
  then have dt: "sample_time self' = 1 / 100"
    using assms(2) by (simp add: parameters_init_fields)
  have "a self' = (F_x (integrate self) - F_load (integrate self) alpha) / 2000"
    using step_Returned_derivatives(1) [OF assms(2)]
    by (simp add: integrate_parameters_fields p)
  then have a_pos: "0 < a self'"
    using assms(3) by simp
  have "w_e_dot self' =
      (T_e (integrate self) throttle - GR self * r_e self * F_load (integrate self) alpha) / 10"
    using step_Returned_derivatives(2) [OF assms(2)]
    by (simp add: integrate_parameters_fields p)
  then have w_pos: "0 < w_e_dot self'"
    using assms(4) by simp
  have "v (state_of (step self' throttle' alpha')) = v self' + a self' * (1 / 100)"
    by (simp add: step_kinematics integrate_fields dt)
  moreover have "w_e (state_of (step self' throttle' alpha')) = w_e self' + w_e_dot self' * (1 / 100)"
    by (simp add: step_kinematics integrate_fields dt)
  ultimately show ?thesis
    using a_pos w_pos by simp
qed

theorem next_step_nondecreasing_witness:
  "\<exists>self'. step init (1 / 5) 0 = Returned self'
     \<and> F_x (integrate init) - F_load (integrate init) 0 = 9965.95
     \<and> T_e (integrate init) (1 / 5) - GR init * r_e init * F_load (integrate init) 0 = 78.02475
     \<and> v self' = 5 \<and> w_e self' = 100
     \<and> 5 \<le> v (state_of (step self' 0 1)) \<and> 100 \<le> w_e (state_of (step self' 0 1))"
proof -
  have ret: "step init (1 / 5) 0 = Returned (init\<lparr> x := 1 / 20, a := 4.982975, w_e_dot := 7.802475 \<rparr>)"
    by (simp add: step_def Let_def integrate_def init_def F_x_def s_def omega_w_def
        F_load_def F_aero_def R_x_def F_g_def T_e_def power2_eq_square)
  have f: "F_x (integrate init) - F_load (integrate init) 0 = 9965.95"
    by (simp add: integrate_def init_def F_x_def s_def omega_w_def
        F_load_def F_aero_def R_x_def F_g_def power2_eq_square)
  have t: "T_e (integrate init) (1 / 5) - GR init * r_e init * F_load (integrate init) 0 = 78.02475"
    by (simp add: integrate_def init_def F_load_def F_aero_def R_x_def F_g_def T_e_def
        power2_eq_square)
  have "v (init\<lparr> x := 1 / 20, a := 4.982975, w_e_dot := 7.802475 \<rparr>)
          \<le> v (state_of (step (init\<lparr> x := 1 / 20, a := 4.982975, w_e_dot := 7.802475 \<rparr>) 0 1))
      \<and> w_e (init\<lparr> x := 1 / 20, a := 4.982975, w_e_dot := 7.802475 \<rparr>)
          \<le> w_e (state_of (step (init\<lparr> x := 1 / 20, a := 4.982975, w_e_dot := 7.802475 \<rparr>) 0 1))"
    using next_step_nondecreasing [of init "1 / 5" 0 _ 0 1, OF refl ret] f t
    by simp
  moreover have "v (init\<lparr> x := 1 / 20, a := 4.982975, w_e_dot := 7.802475 \<rparr>) = 5"
    "w_e (init\<lparr> x := 1 / 20, a := 4.982975, w_e_dot := 7.802475 \<rparr>) = 100"
    by (simp_all add: init_def)
  ultimately show ?thesis
    using ret f t by simp
qed

subsection \<open>The first step\<close>

text \<open>
  C9. A freshly constructed object, and an object just reset that carries the
  constructor's parameters, hold the derivatives \<open>a = 0\<close> and \<open>w_e_dot = 0\<close>. The first
  call of \<^verbatim>\<open>step\<close> on it returns for every throttle and incline, leaves the velocity
  at 5 and the engine speed at 100 and sets the position to \<open>5 * 0.01 = 0.05\<close>; the
  object it leaves is the fresh one but for the position and the two derivatives, so
  the arguments show in the stored derivatives only.
\<close>

theorem first_step:
  assumes "self = init \<or> (\<exists>old. self = reset old \<and> parameters old = parameters init)"
  shows "a self = 0 \<and> w_e_dot self = 0
     \<and> (\<exists>a' w_e_dot'.
          step self throttle alpha = Returned (init\<lparr> x := 5 * 0.01, a := a', w_e_dot := w_e_dot' \<rparr>))
     \<and> x (state_of (step self throttle alpha)) = 0.05
     \<and> v (state_of (step self throttle alpha)) = 5
     \<and> w_e (state_of (step self throttle alpha)) = 100"
proof -
  have "reset old = init" if "parameters old = parameters init" for old
    using that by (simp add: parameters_def reset_def init_def)
  with assms have self: "self = init"
    by blast
  have ret: "step init throttle alpha =
      Returned (init\<lparr> x := 5 * 0.01,
        a := (F_x (integrate init) - F_load (integrate init) alpha) / 2000,
        w_e_dot := (T_e (integrate init) throttle - 0.35 * 0.3 * F_load (integrate init) alpha) / 10 \<rparr>)"
    by (simp add: step_def Let_def integrate_parameters_fields integrate_fields)
      (simp add: integrate_def init_def)
  have "\<exists>a' w_e_dot'.
          step init throttle alpha = Returned (init\<lparr> x := 5 * 0.01, a := a', w_e_dot := w_e_dot' \<rparr>)"
    unfolding ret by blast
  moreover have "a init = 0" "w_e_dot init = 0"
    by (simp_all add: init_def)
  moreover have "x (state_of (step init throttle alpha)) = 0.05"
    "v (state_of (step init throttle alpha)) = 5"
    "w_e (state_of (step init throttle alpha)) = 100"
    unfolding ret by (simp_all add: init_def)
  ultimately show ?thesis
    unfolding self by blast
qed

theorem first_step_witness:
  "step init (1 / 5) 0 = Returned (init\<lparr> x := 0.05, a := 4.982975, w_e_dot := 7.802475 \<rparr>)
   \<and> x (state_of (step (reset (init\<lparr> x := 7, v := 3, a := 1, w_e := 9, w_e_dot := 2 \<rparr>)) 1 1)) = 0.05
   \<and> v (state_of (step (reset (init\<lparr> x := 7, v := 3, a := 1, w_e := 9, w_e_dot := 2 \<rparr>)) 1 1)) = 5
   \<and> w_e (state_of (step (reset (init\<lparr> x := 7, v := 3, a := 1, w_e := 9, w_e_dot := 2 \<rparr>)) 1 1)) = 100"
proof -
  have ret: "step init (1 / 5) 0 = Returned (init\<lparr> x := 0.05, a := 4.982975, w_e_dot := 7.802475 \<rparr>)"
    by (simp add: step_def Let_def integrate_def init_def F_x_def s_def omega_w_def
        F_load_def F_aero_def R_x_def F_g_def T_e_def power2_eq_square)
  have "parameters (init\<lparr> x := 7, v := 3, a := 1, w_e := 9, w_e_dot := 2 \<rparr>) = parameters init"
    by (simp add: parameters_def)
  then have "reset (init\<lparr> x := 7, v := 3, a := 1, w_e := 9, w_e_dot := 2 \<rparr>) = init
      \<or> (\<exists>old. reset (init\<lparr> x := 7, v := 3, a := 1, w_e := 9, w_e_dot := 2 \<rparr>) = reset old
            \<and> parameters old = parameters init)"
    by blast
  from first_step [OF this, of 1 1] ret
  show ?thesis
    by simp
qed

subsection \<open>Determinism\<close>



subsection \<open>The ramp scenario\<close>

lemma n_eq: "n = 2000"
  by (simp add: n_def t_data_def arange_def time_end_def sample_time'_def)


lemma length_throttle_data: "length throttle_data = n"
proof -
  have d: "n div 4 = 500" "3 * n div 4 = 1500"
    by (simp_all add: n_eq)
  show ?thesis
    unfolding throttle_data_def Let_def slice_assign_def d
    by (simp add: n_eq del: upt_rec_numeral)
qed










end
